theory Spec2Isabelle
  imports Main
begin

section \<open>JavaScript values\<close>

text \<open>
  The form data bag, entity records and host payloads are values of type \<open>unknown\<close> in the
  TypeScript source. They are modelled by the values below: the JSON-like values, BigInts
  and \<open>Date\<close> objects (which \<open>formatCellValue\<close> tests for). Values with cycles, symbols,
  functions and objects with methods or accessors of their own are outside the model.

  \<^item> \<open>JNum n\<close> is the number with the integer value \<open>n\<close> (the double nearest to \<open>n\<close>; every
    \<open>n\<close> with \<open>|n| \<le> 2^53 - 1\<close> is a double itself). Both zeros are \<open>JNum 0\<close>.
  \<^item> \<open>JNumOther s\<close> is any other number except \<open>NaN\<close> (a number that is not an integer, or
    an infinity), given by its decimal rendering \<open>s\<close>, such as \<open>1.5\<close> or \<open>Infinity\<close>.
  \<^item> \<open>JBigInt n\<close> is the BigInt \<open>n\<close>.
  \<^item> \<open>JObj kvs\<close> is a plain object with the own enumerable data properties \<open>kvs\<close>, the
    first binding of a key being the property's value.
  \<^item> Strings are lists of 8-bit characters; the case conversions below are those of the
    ASCII letters.
\<close>

datatype jsval =
    JUndefined
  | JNull
  | JBool bool
  | JNum int
  | JNumOther string
  | JNaN
  | JBigInt int
  | JStr string
  | JArr "jsval list"
  | JObj "(string \<times> jsval) list"
  | JDate int

text \<open>What a \<open>throw\<close> carries: an \<open>Error\<close> instance with its message, or any other value.\<close>

datatype thrown = ErrorObj string | ThrownValue jsval

text \<open>Truthiness (\<open>if (v)\<close>, \<open>!v\<close>, \<open>Boolean(v)\<close>).\<close>

fun truthy :: "jsval \<Rightarrow> bool" where
  "truthy JUndefined = False"
| "truthy JNull = False"
| "truthy (JBool b) = b"
| "truthy (JNum n) = (n \<noteq> 0)"
| "truthy (JNumOther s) = True"
| "truthy JNaN = False"
| "truthy (JBigInt n) = (n \<noteq> 0)"
| "truthy (JStr s) = (s \<noteq> [])"
| "truthy (JArr vs) = True"
| "truthy (JObj kvs) = True"
| "truthy (JDate d) = True"

definition digit_char :: "nat \<Rightarrow> char" where
  "digit_char n = ''0123456789'' ! n"

fun nat_to_string :: "nat \<Rightarrow> string" where
  "nat_to_string n =
     (if n < 10 then [digit_char n] else nat_to_string (n div 10) @ [digit_char (n mod 10)])"

definition int_to_string :: "int \<Rightarrow> string" where
  "int_to_string i =
     (if i < 0 then CHR ''-'' # nat_to_string (nat (- i)) else nat_to_string (nat i))"

text \<open>\<open>Array.prototype.join\<close> on a list of strings.\<close>

fun join :: "string \<Rightarrow> string list \<Rightarrow> string" where
  "join sep [] = []"
| "join sep [x] = x"
| "join sep (x # y # ys) = x @ sep @ join sep (y # ys)"

text \<open>
  The parts of the JavaScript runtime that depend on the locale or are too large to
  restate: printing and parsing dates, printing a number whose integer value is beyond
  the safe integers (exponent notation from \<open>1e21\<close>, rounded digits before), and the text
  that \<open>JSON.stringify\<close> produces for an object it can serialize.
\<close>

record runtime =
  dateToString :: "int \<Rightarrow> string"
  dateToLocaleDateString :: "int \<Rightarrow> string"
  stringToLocaleDateString :: "string \<Rightarrow> thrown + string"
  numberToString :: "int \<Rightarrow> string"
  jsonStringify :: "jsval \<Rightarrow> string"

definition MAX_SAFE_INTEGER :: int where
  "MAX_SAFE_INTEGER = 9007199254740991"

text \<open>\<open>String(v)\<close>.\<close>

fun String_js :: "runtime \<Rightarrow> jsval \<Rightarrow> string" where
  "String_js rt JUndefined = ''undefined''"
| "String_js rt JNull = ''null''"
| "String_js rt (JBool b) = (if b then ''true'' else ''false'')"
| "String_js rt (JNum n) =
     (if - MAX_SAFE_INTEGER \<le> n \<and> n \<le> MAX_SAFE_INTEGER then int_to_string n
      else numberToString rt n)"
| "String_js rt (JNumOther s) = s"
| "String_js rt JNaN = ''NaN''"
| "String_js rt (JBigInt n) = int_to_string n"
| "String_js rt (JStr s) = s"
| "String_js rt (JArr vs) =
     join '','' (map (\<lambda>v. if v = JNull \<or> v = JUndefined then [] else String_js rt v) vs)"
| "String_js rt (JObj kvs) = ''[object Object]''"
| "String_js rt (JDate d) = dateToString rt d"







section \<open>lib/formatters.ts\<close>






text \<open>A runtime for evaluating examples.\<close>

definition sample_runtime :: runtime where
  "sample_runtime =
     \<lparr> dateToString = (\<lambda>d. ''Thu Jan 01 1970''),
       dateToLocaleDateString = (\<lambda>d. ''1/1/1970''),
       stringToLocaleDateString = (\<lambda>s. Inr ''1/1/1970''),
       numberToString = (\<lambda>n. ''1e+21''),
       jsonStringify = (\<lambda>v. ''{}'') \<rparr>"

section \<open>Strings\<close>

text \<open>
  \<open>toLowerCase\<close>, \<open>startsWith\<close> and \<open>includes\<close>. The case conversion is that of the ASCII
  letters, which is JavaScript's on ASCII strings.
\<close>

definition lower_char :: "char \<Rightarrow> char" where
  "lower_char c =
     (case map_of (zip ''ABCDEFGHIJKLMNOPQRSTUVWXYZ'' ''abcdefghijklmnopqrstuvwxyz'') c of
        None \<Rightarrow> c | Some l \<Rightarrow> l)"

definition toLowerCase :: "string \<Rightarrow> string" where
  "toLowerCase s = map lower_char s"

fun startsWith :: "string \<Rightarrow> string \<Rightarrow> bool" where
  "startsWith s [] = True"
| "startsWith [] (c # cs) = False"
| "startsWith (x # xs) (c # cs) = (x = c \<and> startsWith xs cs)"

fun includes_str :: "string \<Rightarrow> string \<Rightarrow> bool" where
  "includes_str [] t = (t = [])"
| "includes_str (x # xs) t = (startsWith (x # xs) t \<or> includes_str xs t)"

text \<open>\<open>path.split('.').pop()\<close>: what follows the last dot, the whole string if there is none.\<close>

definition last_segment :: "string \<Rightarrow> string" where
  "last_segment path = rev (takeWhile (\<lambda>c. c \<noteq> CHR ''.'') (rev path))"

datatype content_type = Image | Pdf | Text | Unknown

text \<open>
  \<open>getContentType(path, mimeType)\<close>. The page passes \<open>formData.pathN as string\<close>, which is
  any truthy value at run time; \<open>path.split\<close> on a value that is not a string throws.
\<close>

definition getContentType :: "jsval \<Rightarrow> string \<Rightarrow> thrown + content_type" where
  "getContentType path mimeType =
     (if mimeType \<noteq> [] \<and> startsWith mimeType ''image/'' then Inr Image
      else if mimeType \<noteq> [] \<and> mimeType = ''application/pdf'' then Inr Pdf
      else if mimeType \<noteq> [] \<and> startsWith mimeType ''text/'' then Inr Text
      else (case path of
              JStr p \<Rightarrow>
                (let extension = toLowerCase (last_segment p) in
                 if extension \<in> set [''jpg'', ''jpeg'', ''png'', ''gif'', ''webp'', ''svg'', ''bmp'']
                   then Inr Image
                 else if extension = ''pdf'' then Inr Pdf
                 else if extension \<in> set [''txt'', ''md'', ''json'', ''xml'', ''csv'', ''log'']
                   then Inr Text
                 else Inr Unknown)
            | JUndefined \<Rightarrow>
                Inl (ErrorObj ''Cannot read properties of undefined (reading 'split')'')
            | JNull \<Rightarrow> Inl (ErrorObj ''Cannot read properties of null (reading 'split')'')
            | _ \<Rightarrow> Inl (ErrorObj ''path.split is not a function'')))"

section \<open>types/action-schema.ts\<close>

definition VBDataType_String :: string where "VBDataType_String = ''System.String''"
definition VBDataType_Int32 :: string where "VBDataType_Int32 = ''System.Int32''"
definition VBDataType_Boolean :: string where "VBDataType_Boolean = ''System.Boolean''"
definition VBDataType_Int16 :: string where "VBDataType_Int16 = ''System.Int16''"
definition VBDataType_Int64 :: string where "VBDataType_Int64 = ''System.Int64''"
definition VBDataType_UInt16 :: string where "VBDataType_UInt16 = ''System.UInt16''"
definition VBDataType_UInt32 :: string where "VBDataType_UInt32 = ''System.UInt32''"
definition VBDataType_UInt64 :: string where "VBDataType_UInt64 = ''System.UInt64''"
definition VBDataType_Double :: string where "VBDataType_Double = ''System.Double''"
definition VBDataType_Single :: string where "VBDataType_Single = ''System.Single''"
definition VBDataType_Decimal :: string where "VBDataType_Decimal = ''System.Decimal''"
definition VBDataType_DateOnly :: string where "VBDataType_DateOnly = ''System.DateOnly''"
definition VBDataType_Guid :: string where "VBDataType_Guid = ''System.Guid''"
definition VBDataType_Object :: string where "VBDataType_Object = ''System.Object''"
definition VBDataType_DataTable :: string where "VBDataType_DataTable = ''System.Data.DataTable''"
definition VBDataType_IResource :: string where
  "VBDataType_IResource = ''UiPath.Platform.ResourceHandling.IResource''"

text \<open>The values of the enum \<open>VBDataType\<close>, in the order of their declaration.\<close>

definition VBDataType_values :: "string list" where
  "VBDataType_values =
     [VBDataType_String, VBDataType_Int32, VBDataType_Boolean, VBDataType_Int16,
      VBDataType_Int64, VBDataType_UInt16, VBDataType_UInt32, VBDataType_UInt64,
      VBDataType_Double, VBDataType_Single, VBDataType_Decimal, VBDataType_DateOnly,
      VBDataType_Guid, VBDataType_Object, VBDataType_DataTable, VBDataType_IResource]"

definition integer_types :: "string list" where
  "integer_types =
     [VBDataType_Int16, VBDataType_Int32, VBDataType_Int64,
      VBDataType_UInt16, VBDataType_UInt32, VBDataType_UInt64]"

definition getInputType :: "string \<Rightarrow> string" where
  "getInputType vbType =
     (if vbType \<in> set integer_types then ''number''
      else if vbType \<in> set [VBDataType_Double, VBDataType_Single, VBDataType_Decimal]
        then ''number''
      else if vbType = VBDataType_Boolean then ''checkbox''
      else if vbType = VBDataType_DateOnly then ''date''
      else ''text'')"

section \<open>components/action/ActionFormField.tsx\<close>

record ActionFormFieldProps =
  name :: string
  label :: string
  type :: string
  required :: bool
  readOnly :: bool
  "value" :: jsval
  description :: "string option"
  placeholder :: "string option"
  isList :: bool
  className :: string

text \<open>
  The control that the component returns: a checkbox, a multi-line text area, or an
  \<open>input\<close> element of a given \<open>type\<close> attribute, with the attributes the source sets.
\<close>

datatype control =
    Checkbox (checked: bool) (disabled: bool)
  | Textarea (text_value: string) (text_placeholder: string) (disabled: bool)
  | Input (input_type: string) (input_value: jsval) (input_placeholder: "string option")
      (step: "string option") (disabled: bool)

text \<open>\<open>value ?? ''\<close> and \<open>placeholder || `Enter ${label.toLowerCase()}`\<close>.\<close>

definition nullish_or_empty :: "jsval \<Rightarrow> jsval" where
  "nullish_or_empty v = (if v = JNull \<or> v = JUndefined then JStr [] else v)"

definition placeholder_or_default :: "ActionFormFieldProps \<Rightarrow> string" where
  "placeholder_or_default p =
     (case placeholder p of
        Some s \<Rightarrow> if s \<noteq> [] then s else ''Enter '' @ toLowerCase (label p)
      | None \<Rightarrow> ''Enter '' @ toLowerCase (label p))"

definition isLongText :: "ActionFormFieldProps \<Rightarrow> bool" where
  "isLongText p =
     (type p = VBDataType_String \<and>
      (includes_str (toLowerCase (name p)) ''comment'' \<or>
       includes_str (toLowerCase (name p)) ''description'' \<or>
       includes_str (toLowerCase (name p)) ''note'' \<or>
       includes_str (toLowerCase (name p)) ''reason'' \<or>
       includes_str (toLowerCase (name p)) ''message''))"

definition ActionFormField :: "runtime \<Rightarrow> ActionFormFieldProps \<Rightarrow> control" where
  "ActionFormField rt p =
     (let inputType = getInputType (type p) in
      if type p = VBDataType_Boolean then Checkbox (truthy (value p)) (readOnly p)
      else if isLongText p
        then Textarea (String_js rt (nullish_or_empty (value p))) (placeholder_or_default p)
               (readOnly p)
      else if inputType = ''number''
        then (let isInteger = (type p \<in> set integer_types) in
              Input ''number'' (nullish_or_empty (value p)) (Some (placeholder_or_default p))
                (Some (if isInteger then ''1'' else ''any'')) (readOnly p))
      else if type p = VBDataType_DateOnly
        then Input ''date'' (JStr (String_js rt (nullish_or_empty (value p)))) None None
               (readOnly p)
      else Input inputType (JStr (String_js rt (nullish_or_empty (value p))))
             (Some (placeholder_or_default p)) None (readOnly p))"

section \<open>components/action/PDFViewer.tsx\<close>

record pdf_state =
  numPages :: int
  pageNumber :: int
  pdf_loading :: bool
  pdf_error :: "string option"

definition pdf_initial :: pdf_state where
  "pdf_initial = \<lparr> numPages = 0, pageNumber = 1, pdf_loading = True, pdf_error = None \<rparr>"

definition onLoadSuccess :: "int \<Rightarrow> pdf_state \<Rightarrow> pdf_state" where
  "onLoadSuccess n s = s\<lparr> numPages := n, pageNumber := 1, pdf_loading := False, pdf_error := None \<rparr>"

definition onLoadError :: "string \<Rightarrow> pdf_state \<Rightarrow> pdf_state" where
  "onLoadError msg s = s\<lparr> pdf_loading := False, pdf_error := Some msg \<rparr>"

definition goToPrevPage :: "pdf_state \<Rightarrow> pdf_state" where
  "goToPrevPage s = s\<lparr> pageNumber := max 1 (pageNumber s - 1) \<rparr>"

definition goToNextPage :: "pdf_state \<Rightarrow> pdf_state" where
  "goToNextPage s = s\<lparr> pageNumber := min (numPages s) (pageNumber s + 1) \<rparr>"

text \<open>
  What the component renders: the placeholder when there is no file, the error view when
  \<open>error\<close> is a non-empty string, and otherwise the viewer, whose two buttons (shown when
  \<open>showControls\<close>) carry the \<open>disabled\<close> attributes below.
\<close>

record PDFViewerProps =
  "file" :: "string option"
  showControls :: bool

definition controls_rendered :: "PDFViewerProps \<Rightarrow> pdf_state \<Rightarrow> bool" where
  "controls_rendered p s =
     ((case file p of None \<Rightarrow> False | Some f \<Rightarrow> f \<noteq> []) \<and>
      \<not> (case pdf_error s of None \<Rightarrow> False | Some e \<Rightarrow> e \<noteq> []) \<and>
      showControls p)"

definition prev_disabled :: "pdf_state \<Rightarrow> bool" where
  "prev_disabled s = (pageNumber s \<le> 1 \<or> pdf_loading s)"

definition next_disabled :: "pdf_state \<Rightarrow> bool" where
  "next_disabled s = (pageNumber s \<ge> numPages s \<or> pdf_loading s)"

datatype pdf_event = LoadSuccess int | LoadError string | ClickPrev | ClickNext

text \<open>A click reaches its handler only on a button that is rendered and not disabled.\<close>

fun pdf_step :: "PDFViewerProps \<Rightarrow> pdf_state \<Rightarrow> pdf_event \<Rightarrow> pdf_state" where
  "pdf_step p s (LoadSuccess n) = onLoadSuccess n s"
| "pdf_step p s (LoadError msg) = onLoadError msg s"
| "pdf_step p s ClickPrev =
     (if controls_rendered p s \<and> \<not> prev_disabled s then goToPrevPage s else s)"
| "pdf_step p s ClickNext =
     (if controls_rendered p s \<and> \<not> next_disabled s then goToNextPage s else s)"

definition pdf_run :: "PDFViewerProps \<Rightarrow> pdf_event list \<Rightarrow> pdf_state" where
  "pdf_run p evs = foldl (pdf_step p) pdf_initial evs"

text \<open>
  The invariant: the page number is at least 1, and at most \<open>numPages\<close> once a document
  with at least one page has loaded.
\<close>

definition page_invariant :: "pdf_state \<Rightarrow> bool" where
  "page_invariant s = (1 \<le> pageNumber s \<and> (numPages s < 1 \<or> pageNumber s \<le> numPages s))"

section \<open>Statements that may throw\<close>

text \<open>
  A statement runs on a state and either completes with a value or throws, having changed
  the state up to that point. \<open>try_catch\<close> and \<open>try_finally\<close> are the two halves of
  \<open>try { ... } catch (err) { ... } finally { ... }\<close>.
\<close>

type_synonym ('s, 'a) prog = "'s \<Rightarrow> (thrown + 'a) \<times> 's"

definition return_p :: "'a \<Rightarrow> ('s, 'a) prog" where
  "return_p a s = (Inr a, s)"

definition throw_p :: "thrown \<Rightarrow> ('s, 'a) prog" where
  "throw_p e s = (Inl e, s)"

definition modify_p :: "('s \<Rightarrow> 's) \<Rightarrow> ('s, unit) prog" where
  "modify_p f s = (Inr (), f s)"

definition bind_p :: "('s, 'a) prog \<Rightarrow> ('a \<Rightarrow> ('s, 'b) prog) \<Rightarrow> ('s, 'b) prog" where
  "bind_p m f s = (case m s of (Inl e, s') \<Rightarrow> (Inl e, s') | (Inr a, s') \<Rightarrow> f a s')"

definition then_p :: "('s, 'a) prog \<Rightarrow> ('s, 'b) prog \<Rightarrow> ('s, 'b) prog" where
  "then_p m n = bind_p m (\<lambda>_. n)"

definition try_catch :: "('s, 'a) prog \<Rightarrow> (thrown \<Rightarrow> ('s, 'a) prog) \<Rightarrow> ('s, 'a) prog" where
  "try_catch m h s = (case m s of (Inl e, s') \<Rightarrow> h e s' | (Inr a, s') \<Rightarrow> (Inr a, s'))"

definition try_finally :: "('s, 'a) prog \<Rightarrow> ('s, unit) prog \<Rightarrow> ('s, 'a) prog" where
  "try_finally m fin s =
     (case m s of (r, s') \<Rightarrow>
        (case fin s' of (Inl e, s'') \<Rightarrow> (Inl e, s'') | (Inr u, s'') \<Rightarrow> (r, s'')))"

text \<open>\<open>err instanceof Error ? err.message : fallback\<close>.\<close>

fun error_message :: "thrown \<Rightarrow> string \<Rightarrow> string" where
  "error_message (ErrorObj m) fallback = m"
| "error_message (ThrownValue v) fallback = fallback"

section \<open>hooks/useActionContext.ts\<close>

type_synonym ActionFormData = "string \<rightharpoonup> jsval"

text \<open>\<open>formData.k\<close>: the value of the key, \<open>undefined\<close> when the bag has no such key.\<close>

definition field :: "ActionFormData \<Rightarrow> string \<Rightarrow> jsval" where
  "field fd k = (case fd k of None \<Rightarrow> JUndefined | Some v \<Rightarrow> v)"

text \<open>
  The fields of a host message (\<open>ActionCenterData\<close>) that the hook reads. Every field may
  be missing in a message at run time, which the hook tests for; \<open>data\<close> is an object when
  present.
\<close>

record ActionCenterData =
  data_title :: "string option"
  data_isReadOnly :: "bool option"
  data_data :: "ActionFormData option"
  data_baseUrl :: "string option"
  data_orgName :: "string option"
  data_tenantName :: "string option"
  data_token :: "string option"
  data_language :: "string option"
  data_theme :: "string option"
  data_newToken :: "string option"
  data_newLanguage :: "string option"
  data_newTheme :: "string option"

text \<open>Truthiness of an optional string: present and not empty.\<close>

fun present :: "string option \<Rightarrow> bool" where
  "present None = False"
| "present (Some s) = (s \<noteq> [])"

definition Theme_Light :: string where "Theme_Light = ''light''"

text \<open>The calls the hook makes on the SDK client and on \<open>lib/uipath\<close>, and \<open>alert\<close>.\<close>

datatype sdk_call =
    GetTaskDetailsFromActionCenter
  | InitializeInActionCenter
  | DataChanged ActionFormData
  | CompleteTaskCall string ActionFormData
  | InitializeSdk string string string string
  | UpdateToken string
  | Alert string

fun is_registration :: "sdk_call \<Rightarrow> bool" where
  "is_registration GetTaskDetailsFromActionCenter = True"
| "is_registration c = False"

fun is_ready_signal :: "sdk_call \<Rightarrow> bool" where
  "is_ready_signal InitializeInActionCenter = True"
| "is_ready_signal c = False"

text \<open>
  The state of one hook instance: the five \<open>useState\<close> cells, the two refs, and the calls
  made so far.
\<close>

record hook_state =
  taskData :: "ActionCenterData option"
  formData :: ActionFormData
  theme :: string
  language :: string
  hasActionCenterData :: bool
  initialDataRef :: ActionFormData
  isInitializedRef :: bool
  sdk_calls :: "sdk_call list"

text \<open>The first render: \<open>const { initialData = {} } = options\<close> and the initial cells.\<close>

definition initialData_of :: "ActionFormData option \<Rightarrow> ActionFormData" where
  "initialData_of opt = (case opt of None \<Rightarrow> Map.empty | Some d \<Rightarrow> d)"

definition useActionContext_init :: "ActionFormData option \<Rightarrow> hook_state" where
  "useActionContext_init opt =
     \<lparr> taskData = None, formData = initialData_of opt, theme = Theme_Light,
       language = ''en'', hasActionCenterData = False,
       initialDataRef = initialData_of opt, isInitializedRef = False, sdk_calls = [] \<rparr>"


text \<open>
  A call on the SDK: it is recorded, and it completes or throws as the environment
  decides (\<open>None\<close>: it completes).
\<close>

definition invoke :: "sdk_call \<Rightarrow> thrown option \<Rightarrow> (hook_state, unit) prog" where
  "invoke c outcome s =
     (case outcome of
        None \<Rightarrow> (Inr (), s\<lparr> sdk_calls := sdk_calls s @ [c] \<rparr>)
      | Some e \<Rightarrow> (Inl e, s\<lparr> sdk_calls := sdk_calls s @ [c] \<rparr>))"

definition the_string :: "string option \<Rightarrow> string" where
  "the_string x = (case x of None \<Rightarrow> [] | Some s \<Rightarrow> s)"

definition handleActionCenterMessage :: "ActionCenterData \<Rightarrow> hook_state \<Rightarrow> hook_state" where
  "handleActionCenterMessage d s =
     (let s1 = s\<lparr> taskData := Some d, hasActionCenterData := True \<rparr>;
          s2 = (if present (data_baseUrl d) \<and> present (data_orgName d) \<and>
                   present (data_tenantName d) \<and> present (data_token d)
                then s1\<lparr> sdk_calls := sdk_calls s1 @
                       [InitializeSdk (the_string (data_baseUrl d)) (the_string (data_orgName d))
                          (the_string (data_tenantName d)) (the_string (data_token d))] \<rparr>
                else s1);
          s3 = (if present (data_newToken d)
                then s2\<lparr> sdk_calls := sdk_calls s2 @ [UpdateToken (the_string (data_newToken d))] \<rparr>
                else s2);
          s4 = (if present (data_newTheme d) then s3\<lparr> theme := the_string (data_newTheme d) \<rparr>
                else if present (data_theme d) then s3\<lparr> theme := the_string (data_theme d) \<rparr>
                else s3);
          s5 = (if present (data_newLanguage d)
                  then s4\<lparr> language := the_string (data_newLanguage d) \<rparr>
                else if present (data_language d)
                  then s4\<lparr> language := the_string (data_language d) \<rparr>
                else s4)
      in (case data_data d of
            Some fd \<Rightarrow> s5\<lparr> formData := fd, initialDataRef := fd \<rparr>
          | None \<Rightarrow> s5))"

text \<open>
  The mount effect. The two arguments say whether \<open>getTaskDetailsFromActionCenter\<close> and
  \<open>initializeInActionCenter\<close> throw.
\<close>

definition initEffect :: "thrown option \<Rightarrow> thrown option \<Rightarrow> (hook_state, unit) prog" where
  "initEffect reg ready s =
     (if isInitializedRef s then (Inr (), s)
      else try_catch
             (then_p (invoke GetTaskDetailsFromActionCenter reg)
                     (invoke InitializeInActionCenter ready))
             (\<lambda>err. return_p ())
             (s\<lparr> isInitializedRef := True \<rparr>))"

definition updateField :: "string \<Rightarrow> jsval \<Rightarrow> thrown option \<Rightarrow> (hook_state, unit) prog" where
  "updateField fieldName v outcome s =
     (let updated = (formData s)(fieldName \<mapsto> v)
      in try_catch (invoke (DataChanged updated) outcome) (\<lambda>err. return_p ())
           (s\<lparr> formData := updated \<rparr>))"

definition updateFormData :: "ActionFormData \<Rightarrow> thrown option \<Rightarrow> (hook_state, unit) prog" where
  "updateFormData d outcome s =
     (let updated = formData s ++ d
      in try_catch (invoke (DataChanged updated) outcome) (\<lambda>err. return_p ())
           (s\<lparr> formData := updated \<rparr>))"

definition completeTask :: "string \<Rightarrow> thrown option \<Rightarrow> (hook_state, unit) prog" where
  "completeTask outcome_name outcome s =
     try_catch (invoke (CompleteTaskCall outcome_name (formData s)) outcome)
       (\<lambda>err. modify_p (\<lambda>t. t\<lparr> sdk_calls := sdk_calls t @ [Alert outcome_name] \<rparr>)) s"

definition resetForm :: "thrown option \<Rightarrow> (hook_state, unit) prog" where
  "resetForm outcome s =
     try_catch (invoke (DataChanged (initialDataRef s)) outcome) (\<lambda>err. return_p ())
       (s\<lparr> formData := initialDataRef s \<rparr>)"

text \<open>
  What can happen to a hook instance: its mount effect body is entered, the SDK invokes
  the registered callback with a host message, or the component calls one of the returned
  functions. Each carries the outcome of the SDK call it makes.
\<close>

datatype hook_event =
    MountEffect "thrown option" "thrown option"
  | HostMessage ActionCenterData
  | UpdateField string jsval "thrown option"
  | UpdateFormData ActionFormData "thrown option"
  | CompleteTask string "thrown option"
  | ResetForm "thrown option"

fun hook_prog :: "hook_event \<Rightarrow> (hook_state, unit) prog" where
  "hook_prog (MountEffect reg ready) = initEffect reg ready"
| "hook_prog (HostMessage d) = modify_p (handleActionCenterMessage d)"
| "hook_prog (UpdateField f v outcome) = updateField f v outcome"
| "hook_prog (UpdateFormData d outcome) = updateFormData d outcome"
| "hook_prog (CompleteTask n outcome) = completeTask n outcome"
| "hook_prog (ResetForm outcome) = resetForm outcome"

definition hook_step :: "hook_state \<Rightarrow> hook_event \<Rightarrow> hook_state" where
  "hook_step s ev = snd (hook_prog ev s)"

definition hook_run :: "hook_state \<Rightarrow> hook_event list \<Rightarrow> hook_state" where
  "hook_run s evs = foldl hook_step s evs"

fun is_host_message :: "hook_event \<Rightarrow> bool" where
  "is_host_message (HostMessage d) = True"
| "is_host_message ev = False"


text \<open>
  The baseline the claim names: the data of the last host message that carried data, or
  the caller's initial data when there is none.
\<close>

fun last_host_data :: "ActionFormData \<Rightarrow> hook_event list \<Rightarrow> ActionFormData" where
  "last_host_data base [] = base"
| "last_host_data base (HostMessage d # evs) =
     last_host_data (case data_data d of None \<Rightarrow> base | Some fd \<Rightarrow> fd) evs"
| "last_host_data base (ev # evs) = last_host_data base evs"

text \<open>How often the callback was registered and the ready signal sent so far.\<close>

definition registrations :: "hook_state \<Rightarrow> nat" where
  "registrations s = length (filter is_registration (sdk_calls s))"

definition ready_signals :: "hook_state \<Rightarrow> nat" where
  "ready_signals s = length (filter is_ready_signal (sdk_calls s))"

text \<open>A host message that carries form data and nothing else.\<close>

definition data_message :: "ActionFormData \<Rightarrow> ActionCenterData" where
  "data_message fd =
     \<lparr> data_title = None, data_isReadOnly = None, data_data = Some fd, data_baseUrl = None,
       data_orgName = None, data_tenantName = None, data_token = None, data_language = None,
       data_theme = None, data_newToken = None, data_newLanguage = None,
       data_newTheme = None \<rparr>"


text \<open>Before the first entry nothing was sent; afterwards at most one of each.\<close>

definition once_guard :: "hook_state \<Rightarrow> bool" where
  "once_guard s =
     (if isInitializedRef s then registrations s \<le> 1 \<and> ready_signals s \<le> 1
      else registrations s = 0 \<and> ready_signals s = 0)"

text \<open>The callback was registered and the ready signal sent, each exactly once.\<close>

definition sent_once :: "hook_state \<Rightarrow> bool" where
  "sent_once s = (isInitializedRef s \<and> registrations s = 1 \<and> ready_signals s = 1)"

section \<open>hooks/useBucketFile.ts\<close>

record BucketFileInfo =
  uri :: string
  httpMethod :: string
  requiresAuth :: bool
  headers :: "(string \<times> string) list"

text \<open>
  The options are typed \<open>number\<close> and \<open>string\<close>, but the page passes form data values cast
  with \<open>as\<close>, so at run time they are arbitrary values.
\<close>

record UseBucketFileOptions =
  bucketId :: jsval
  folderId :: jsval
  path :: jsval
  expiryInMinutes :: "int option"

record Blob =
  blob_type :: string
  blob_bytes :: "nat list"

text \<open>What \<open>fetch\<close> resolves with: \<open>ok\<close>, \<open>statusText\<close>, and what \<open>await blob()\<close> gives.\<close>

record FetchResponse =
  ok :: bool
  statusText :: string
  blob :: "thrown + Blob"


datatype bucket_call =
    GetReadUriCall UseBucketFileOptions
  | FetchCall string string "(string \<times> string) list"

record bucket_state =
  fileInfo :: "BucketFileInfo option"
  fileContent :: "Blob option"
  loading :: bool
  error :: "string option"
  bucket_calls :: "bucket_call list"







definition reset :: "bucket_state \<Rightarrow> bucket_state" where
  "reset s = s\<lparr> fileInfo := None, fileContent := None, loading := False, error := None \<rparr>"




section \<open>pages/ActionPage.tsx\<close>

definition INITIAL_DATA :: ActionFormData where
  "INITIAL_DATA =
     [''bucketId'' \<mapsto> JNum 123456, ''folderId'' \<mapsto> JNum 789012,
      ''path1'' \<mapsto> JStr ''/documents/sample1.pdf'',
      ''path2'' \<mapsto> JStr ''/documents/sample2.jpg'',
      ''path3'' \<mapsto> JStr ''/documents/sample3.txt'',
      ''entityName'' \<mapsto> JStr ''SampleEntity'']"

record DocumentInfo =
  doc_url :: "string option"
  doc_contentType :: content_type
  doc_loading :: bool
  doc_error :: "string option"

definition doc_initial :: DocumentInfo where
  "doc_initial =
     \<lparr> doc_url = None, doc_contentType = Unknown, doc_loading = False, doc_error = None \<rparr>"

datatype slot = Slot1 | Slot2 | Slot3

text \<open>
  What the page does to the outside: it invokes the two data hooks' fetch functions and
  creates and revokes object URLs.
\<close>

datatype page_call =
    FetchFileContent UseBucketFileOptions
  | FetchByName jsval int int
  | CreateObjectURL Blob
  | RevokeObjectURL string

fun is_service_call :: "page_call \<Rightarrow> bool" where
  "is_service_call (FetchFileContent opts) = True"
| "is_service_call (FetchByName n ps lvl) = True"
| "is_service_call c = False"

text \<open>
  The state of the mounted page: the hook, the three document cells, the dependency
  arrays with which each effect last ran (none before the first run), the URLs captured
  by the cleanup function that the third effect last returned, the fetches in flight, the
  number of object URLs created, and the calls made so far.
\<close>

record page_state =
  hook :: hook_state
  doc1 :: DocumentInfo
  doc2 :: DocumentInfo
  doc3 :: DocumentInfo
  fetch_deps :: "jsval list option"
  entity_deps :: "jsval list option"
  cleanup_urls :: "string option list option"
  pending :: "(slot \<times> jsval) list"
  urls_created :: nat
  mounted :: bool
  page_calls :: "page_call list"

fun get_doc :: "slot \<Rightarrow> page_state \<Rightarrow> DocumentInfo" where
  "get_doc Slot1 s = doc1 s"
| "get_doc Slot2 s = doc2 s"
| "get_doc Slot3 s = doc3 s"

fun set_doc :: "slot \<Rightarrow> DocumentInfo \<Rightarrow> page_state \<Rightarrow> page_state" where
  "set_doc Slot1 d s = s\<lparr> doc1 := d \<rparr>"
| "set_doc Slot2 d s = s\<lparr> doc2 := d \<rparr>"
| "set_doc Slot3 d s = s\<lparr> doc3 := d \<rparr>"

definition form_value :: "page_state \<Rightarrow> string \<Rightarrow> jsval" where
  "form_value s k = field (formData (hook s)) k"

text \<open>
  The synchronous part of \<open>fetchDocument(path, setDoc)\<close>: it marks the cell as loading and
  invokes \<open>fetchFileContent\<close>; the rest runs when the promise settles.
\<close>

definition fetchDocument_start :: "slot \<Rightarrow> jsval \<Rightarrow> page_state \<Rightarrow> page_state" where
  "fetchDocument_start sl p s =
     (let s1 = set_doc sl ((get_doc sl s)\<lparr> doc_loading := True, doc_error := None \<rparr>) s
      in s1\<lparr> page_calls := page_calls s1 @
               [FetchFileContent \<lparr> bucketId = form_value s ''bucketId'',
                                   folderId = form_value s ''folderId'', path = p,
                                   expiryInMinutes = Some 60 \<rparr>],
             pending := pending s1 @ [(sl, p)] \<rparr>)"

text \<open>\<open>URL.createObjectURL\<close> returns a new URL of the \<open>blob:\<close> scheme.\<close>

definition blob_url :: "nat \<Rightarrow> string" where
  "blob_url n = ''blob:'' @ nat_to_string n"

text \<open>
  The rest of \<open>fetchDocument\<close>, run with what the promise of \<open>fetchFileContent\<close> settled
  with: a blob, null, or (were it to reject) a thrown value.
\<close>

definition fetchDocument_settle ::
  "slot \<Rightarrow> jsval \<Rightarrow> thrown + Blob option \<Rightarrow> page_state \<Rightarrow> page_state" where
  "fetchDocument_settle sl p r s =
     (case r of
        Inr (Some b) \<Rightarrow>
          (let u = blob_url (urls_created s);
               s1 = s\<lparr> urls_created := urls_created s + 1,
                       page_calls := page_calls s @ [CreateObjectURL b] \<rparr>
           in case getContentType p (blob_type b) of
                Inr ct \<Rightarrow>
                  set_doc sl \<lparr> doc_url = Some u, doc_contentType = ct, doc_loading = False,
                               doc_error = None \<rparr> s1
              | Inl err \<Rightarrow>
                  set_doc sl ((get_doc sl s1)\<lparr> doc_loading := False,
                     doc_error := Some (error_message err ''Unknown error'') \<rparr>) s1)
      | Inr None \<Rightarrow>
          set_doc sl ((get_doc sl s)\<lparr> doc_loading := False,
             doc_error := Some ''Failed to fetch document'' \<rparr>) s
      | Inl err \<Rightarrow>
          set_doc sl ((get_doc sl s)\<lparr> doc_loading := False,
             doc_error := Some (error_message err ''Unknown error'') \<rparr>) s)"

text \<open>The body of the document effect and its dependency array.\<close>

definition document_effect :: "page_state \<Rightarrow> page_state" where
  "document_effect s =
     (if \<not> hasActionCenterData (hook s) \<or> \<not> truthy (form_value s ''bucketId'') \<or>
         \<not> truthy (form_value s ''folderId'')
      then s
      else (let s1 = (if truthy (form_value s ''path1'')
                      then fetchDocument_start Slot1 (form_value s ''path1'') s else s);
                s2 = (if truthy (form_value s ''path2'')
                      then fetchDocument_start Slot2 (form_value s ''path2'') s1 else s1);
                s3 = (if truthy (form_value s ''path3'')
                      then fetchDocument_start Slot3 (form_value s ''path3'') s2 else s2)
            in s3))"

definition document_deps :: "page_state \<Rightarrow> jsval list" where
  "document_deps s =
     [JBool (hasActionCenterData (hook s)), form_value s ''bucketId'', form_value s ''folderId'',
      form_value s ''path1'', form_value s ''path2'', form_value s ''path3'']"

text \<open>The body of the entity effect and its dependency array.\<close>

definition entity_effect :: "page_state \<Rightarrow> page_state" where
  "entity_effect s =
     (if \<not> hasActionCenterData (hook s) \<or> \<not> truthy (form_value s ''entityName'')
      then s
      else s\<lparr> page_calls := page_calls s @ [FetchByName (form_value s ''entityName'') 50 1] \<rparr>)"

definition entity_deps_of :: "page_state \<Rightarrow> jsval list" where
  "entity_deps_of s = [JBool (hasActionCenterData (hook s)), form_value s ''entityName'']"

text \<open>
  The cleanup function of the third effect, over the URLs it captured:
  \<open>if (doc.url) URL.revokeObjectURL(doc.url)\<close> for each of the three.
\<close>

fun revocations :: "string option list \<Rightarrow> page_call list" where
  "revocations [] = []"
| "revocations (None # us) = revocations us"
| "revocations (Some u # us) = (if u \<noteq> [] then RevokeObjectURL u # revocations us else revocations us)"

definition url_deps :: "page_state \<Rightarrow> string option list" where
  "url_deps s = [doc_url (doc1 s), doc_url (doc2 s), doc_url (doc3 s)]"

definition run_cleanup :: "page_state \<Rightarrow> page_state" where
  "run_cleanup s =
     (case cleanup_urls s of
        None \<Rightarrow> s
      | Some us \<Rightarrow> s\<lparr> page_calls := page_calls s @ revocations us \<rparr>)"

text \<open>
  After a render React runs the effects whose dependencies changed since their last run
  (all of them after the first render); for the third effect it first runs the cleanup
  function returned by the previous run.
\<close>

definition run_effects :: "page_state \<Rightarrow> page_state" where
  "run_effects s =
     (let s1 = (if fetch_deps s = Some (document_deps s) then s
                else document_effect (s\<lparr> fetch_deps := Some (document_deps s) \<rparr>));
          s2 = (if entity_deps s1 = Some (entity_deps_of s1) then s1
                else entity_effect (s1\<lparr> entity_deps := Some (entity_deps_of s1) \<rparr>));
          s3 = (if cleanup_urls s2 = Some (url_deps s2) then s2
                else (run_cleanup s2)\<lparr> cleanup_urls := Some (url_deps s2) \<rparr>)
      in s3)"

text \<open>
  Mounting: the first render with \<open>INITIAL_DATA\<close>, then the hook's mount effect and the
  page's three effects.
\<close>

definition page_mount :: "thrown option \<Rightarrow> thrown option \<Rightarrow> page_state" where
  "page_mount reg ready =
     run_effects
       \<lparr> hook = hook_step (useActionContext_init (Some INITIAL_DATA)) (MountEffect reg ready),
         doc1 = doc_initial, doc2 = doc_initial, doc3 = doc_initial,
         fetch_deps = None, entity_deps = None, cleanup_urls = None, pending = [],
         urls_created = 0, mounted = True, page_calls = [] \<rparr>"

text \<open>
  A fetch that settles after the unmount: the continuation of \<open>fetchDocument\<close> still runs,
  so a blob still gets an object URL, but \<open>setDoc\<close> on the unmounted component does
  nothing.
\<close>

definition settle_unmounted :: "thrown + Blob option \<Rightarrow> page_state \<Rightarrow> page_state" where
  "settle_unmounted r s =
     (case r of
        Inr (Some b) \<Rightarrow>
          s\<lparr> urls_created := urls_created s + 1,
            page_calls := page_calls s @ [CreateObjectURL b] \<rparr>
      | _ \<Rightarrow> s)"

text \<open>
  What happens to the page: an event of the hook, the settling of a fetch in flight, or
  the unmount, which runs the pending cleanup. On the mounted page each is followed by a
  render and the effects; the effects compare their dependencies by value, which is
  React's comparison on strings, numbers, booleans, null and undefined. After the unmount
  the hook's events are not followed any further.
\<close>

datatype page_event =
    Hook hook_event
  | FetchSettled slot jsval "thrown + Blob option"
  | Unmount

fun page_step :: "page_state \<Rightarrow> page_event \<Rightarrow> page_state" where
  "page_step s (Hook ev) =
     (if mounted s then run_effects (s\<lparr> hook := hook_step (hook s) ev \<rparr>) else s)"
| "page_step s (FetchSettled sl p r) =
     (if (sl, p) \<in> set (pending s)
      then (if mounted s
            then run_effects
                   (fetchDocument_settle sl p r (s\<lparr> pending := remove1 (sl, p) (pending s) \<rparr>))
            else settle_unmounted r (s\<lparr> pending := remove1 (sl, p) (pending s) \<rparr>))
      else s)"
| "page_step s Unmount =
     (if mounted s then run_cleanup (s\<lparr> mounted := False \<rparr>) else s)"

definition page_run :: "page_state \<Rightarrow> page_event list \<Rightarrow> page_state" where
  "page_run s evs = foldl page_step s evs"

fun is_host_event :: "page_event \<Rightarrow> bool" where
  "is_host_event (Hook ev) = is_host_message ev"
| "is_host_event ev = False"

text \<open>The calls that the unmount itself makes in a state.\<close>

definition unmount_calls :: "page_state \<Rightarrow> page_call list" where
  "unmount_calls s = drop (length (page_calls s)) (page_calls (page_step s Unmount))"

text \<open>The URLs of the document cells whose \<open>url\<close> is not null, in the order of the cells.\<close>

definition current_urls :: "page_state \<Rightarrow> string list" where
  "current_urls s = concat (map (\<lambda>d. case doc_url d of None \<Rightarrow> [] | Some u \<Rightarrow> [u]) [doc1 s, doc2 s, doc3 s])"

text \<open>A URL cell is null or holds a non-empty string.\<close>

fun url_ok :: "string option \<Rightarrow> bool" where
  "url_ok None = True"
| "url_ok (Some u) = (u \<noteq> [])"

text \<open>
  What holds of the page between events: while mounted, the pending cleanup has captured
  the current URLs; and every URL cell is null or non-empty.
\<close>

definition cleanup_current :: "page_state \<Rightarrow> bool" where
  "cleanup_current s =
     ((cleanup_urls s = Some (url_deps s) \<or> mounted s = False) \<and> list_all url_ok (url_deps s))"

text \<open>While the readiness flag is false, no service call has been made.\<close>

definition gated :: "page_state \<Rightarrow> bool" where
  "gated s = (hasActionCenterData (hook s) \<or> filter is_service_call (page_calls s) = [])"

text \<open>A host message and a fetched file for evaluating examples.\<close>

definition sample_host_data :: ActionFormData where
  "sample_host_data =
     [''bucketId'' \<mapsto> JNum 7, ''folderId'' \<mapsto> JNum 8, ''path1'' \<mapsto> JStr ''/a.pdf'',
      ''entityName'' \<mapsto> JStr ''Invoice'']"

definition sample_blob :: Blob where
  "sample_blob = \<lparr> blob_type = ''application/pdf'', blob_bytes = [37, 80, 68, 70] \<rparr>"

definition sample_run :: "page_event list" where
  "sample_run =
     [Hook (HostMessage (data_message sample_host_data)),
      FetchSettled Slot1 (JStr ''/a.pdf'') (Inr (Some sample_blob))]"

section \<open>Auxiliary facts\<close>

lemmas VBDataType_defs =
  VBDataType_String_def VBDataType_Int32_def VBDataType_Boolean_def VBDataType_Int16_def
  VBDataType_Int64_def VBDataType_UInt16_def VBDataType_UInt32_def VBDataType_UInt64_def
  VBDataType_Double_def VBDataType_Single_def VBDataType_Decimal_def VBDataType_DateOnly_def
  VBDataType_Guid_def VBDataType_Object_def VBDataType_DataTable_def VBDataType_IResource_def

section \<open>Value formatting\<close>






section \<open>Input widgets\<close>

lemma getInputType_number:
  "t \<in> set integer_types \<or> t \<in> set [VBDataType_Double, VBDataType_Single, VBDataType_Decimal]
   \<Longrightarrow> getInputType t = ''number''"
  by (auto simp: getInputType_def)

lemma getInputType_number_iff:
  "getInputType t = ''number'' \<longleftrightarrow>
   t \<in> set integer_types \<or> t \<in> set [VBDataType_Double, VBDataType_Single, VBDataType_Decimal]"
  by (simp add: getInputType_def)

lemma getInputType_text:
  "t \<notin> set integer_types \<Longrightarrow>
   t \<notin> set [VBDataType_Double, VBDataType_Single, VBDataType_Decimal] \<Longrightarrow>
   t \<noteq> VBDataType_Boolean \<Longrightarrow> t \<noteq> VBDataType_DateOnly \<Longrightarrow> getInputType t = ''text''"
  by (simp add: getInputType_def)

lemma number_not_Boolean: "getInputType t = ''number'' \<Longrightarrow> t \<noteq> VBDataType_Boolean"
  by (auto simp: getInputType_def integer_types_def VBDataType_defs split: if_splits)

lemma number_not_String: "getInputType t = ''number'' \<Longrightarrow> t \<noteq> VBDataType_String"
  by (auto simp: getInputType_def integer_types_def VBDataType_defs split: if_splits)

lemma DateOnly_facts:
  "VBDataType_DateOnly \<noteq> VBDataType_Boolean" "VBDataType_DateOnly \<noteq> VBDataType_String"
  "getInputType VBDataType_DateOnly = ''date''"
  by (simp_all add: getInputType_def integer_types_def VBDataType_defs)

text \<open>
  The claim C5 as stated fails: a String field whose name contains "comment" is rendered as
  a multi-line text area, not as a text input.
\<close>

theorem ActionFormField_textarea_counterexample:
  "ActionFormField sample_runtime
     \<lparr> name = ''reviewerComments'', label = ''Comments'', type = VBDataType_String,
       required = True, readOnly = False, value = JStr ''ok'', description = None,
       placeholder = None, isList = False, className = [] \<rparr>
   = Textarea ''ok'' ''Enter comments'' False \<and>
   getInputType VBDataType_String = ''text''"
  by (simp add: ActionFormField_def isLongText_def getInputType_def integer_types_def
      VBDataType_defs toLowerCase_def lower_char_def placeholder_or_default_def
      nullish_or_empty_def)

text \<open>
  C5 (amended): \<open>getInputType\<close> returns \<open>'number'\<close> for the six integer types and for Double,
  Single and Decimal, \<open>'checkbox'\<close> for Boolean, \<open>'date'\<close> for DateOnly and \<open>'text'\<close> for every
  other string (String, Guid, Object, DataTable, IResource and unknown type names);
  \<open>ActionFormField\<close> renders a checkbox for Boolean, a number input for the numeric types, a
  date input for DateOnly, and for every other type a text input, except that a String
  field whose lower-cased name contains comment, description, note, reason or message is
  rendered as a text area.
\<close>

theorem input_widget_by_declared_type:
  "(t \<in> set integer_types \<or> t \<in> set [VBDataType_Double, VBDataType_Single, VBDataType_Decimal]
      \<longrightarrow> getInputType t = ''number'') \<and>
   getInputType VBDataType_Boolean = ''checkbox'' \<and>
   getInputType VBDataType_DateOnly = ''date'' \<and>
   list_all (\<lambda>u. getInputType u = ''text'')
     [VBDataType_String, VBDataType_Guid, VBDataType_Object, VBDataType_DataTable,
      VBDataType_IResource] \<and>
   (t \<notin> set VBDataType_values \<longrightarrow> getInputType t = ''text'') \<and>
   (type p = VBDataType_Boolean \<longrightarrow>
      ActionFormField rt p = Checkbox (truthy (value p)) (readOnly p)) \<and>
   (getInputType (type p) = ''number'' \<longrightarrow>
      ActionFormField rt p =
        Input ''number'' (nullish_or_empty (value p)) (Some (placeholder_or_default p))
          (Some (if type p \<in> set integer_types then ''1'' else ''any'')) (readOnly p)) \<and>
   (type p = VBDataType_DateOnly \<longrightarrow>
      ActionFormField rt p =
        Input ''date'' (JStr (String_js rt (nullish_or_empty (value p)))) None None (readOnly p)) \<and>
   (getInputType (type p) = ''text'' \<and> \<not> isLongText p \<longrightarrow>
      ActionFormField rt p =
        Input ''text'' (JStr (String_js rt (nullish_or_empty (value p))))
          (Some (placeholder_or_default p)) None (readOnly p)) \<and>
   (isLongText p \<longrightarrow>
      type p = VBDataType_String \<and>
      ActionFormField rt p =
        Textarea (String_js rt (nullish_or_empty (value p))) (placeholder_or_default p)
          (readOnly p))"
proof -
  have a: "t \<in> set integer_types \<or> t \<in> set [VBDataType_Double, VBDataType_Single, VBDataType_Decimal]
      \<longrightarrow> getInputType t = ''number''"
    using getInputType_number by blast
  have b: "getInputType VBDataType_Boolean = ''checkbox''"
    by (simp add: getInputType_def integer_types_def VBDataType_defs)
  have c: "getInputType VBDataType_DateOnly = ''date''"
    by (rule DateOnly_facts)
  have d: "list_all (\<lambda>u. getInputType u = ''text'')
     [VBDataType_String, VBDataType_Guid, VBDataType_Object, VBDataType_DataTable,
      VBDataType_IResource]"
    by (simp add: getInputType_def integer_types_def VBDataType_defs)
  have e: "t \<notin> set VBDataType_values \<longrightarrow> getInputType t = ''text''"
    by (simp add: getInputType_def integer_types_def VBDataType_values_def)
  have f: "type p = VBDataType_Boolean \<longrightarrow>
      ActionFormField rt p = Checkbox (truthy (value p)) (readOnly p)"
    by (simp add: ActionFormField_def)
  have g: "getInputType (type p) = ''number'' \<longrightarrow>
      ActionFormField rt p =
        Input ''number'' (nullish_or_empty (value p)) (Some (placeholder_or_default p))
          (Some (if type p \<in> set integer_types then ''1'' else ''any'')) (readOnly p)"
    using number_not_Boolean [of "type p"] number_not_String [of "type p"]
    by (simp add: ActionFormField_def isLongText_def)
  have h: "type p = VBDataType_DateOnly \<longrightarrow>
      ActionFormField rt p =
        Input ''date'' (JStr (String_js rt (nullish_or_empty (value p)))) None None (readOnly p)"
    using DateOnly_facts by (simp add: ActionFormField_def isLongText_def)
  have i: "getInputType (type p) = ''text'' \<and> \<not> isLongText p \<longrightarrow>
      ActionFormField rt p =
        Input ''text'' (JStr (String_js rt (nullish_or_empty (value p))))
          (Some (placeholder_or_default p)) None (readOnly p)"
  proof (intro impI, elim conjE)
    assume t: "getInputType (type p) = ''text''" and l: "\<not> isLongText p"
    from t b have nb: "type p \<noteq> VBDataType_Boolean" by auto
    from t c have nd: "type p \<noteq> VBDataType_DateOnly" by auto
    from t l nb nd show "ActionFormField rt p =
        Input ''text'' (JStr (String_js rt (nullish_or_empty (value p))))
          (Some (placeholder_or_default p)) None (readOnly p)"
      by (simp add: ActionFormField_def Let_def)
  qed
  have j: "isLongText p \<longrightarrow>
      type p = VBDataType_String \<and>
      ActionFormField rt p =
        Textarea (String_js rt (nullish_or_empty (value p))) (placeholder_or_default p)
          (readOnly p)"
    by (auto simp: ActionFormField_def isLongText_def VBDataType_defs)
  from a b c d e f g h i j show ?thesis by blast
qed

theorem input_widget_by_declared_type_witness:
  "getInputType ''System.UInt64'' = ''number'' \<and>
   getInputType ''Custom.Type'' = ''text'' \<and>
   ActionFormField sample_runtime
     \<lparr> name = ''remarks'', label = ''Remarks'', type = ''System.String'',
       required = True, readOnly = False, value = JUndefined, description = None,
       placeholder = None, isList = False, className = [] \<rparr>
   = Input ''text'' (JStr []) (Some ''Enter remarks'') None False"
  using input_widget_by_declared_type [of "''System.UInt64''"
      "\<lparr> name = ''remarks'', label = ''Remarks'', type = ''System.String'',
       required = True, readOnly = False, value = JUndefined, description = None,
       placeholder = None, isList = False, className = [] \<rparr>" sample_runtime]
    input_widget_by_declared_type [of "''Custom.Type''"]
  by (simp add: isLongText_def getInputType_def integer_types_def VBDataType_values_def
      VBDataType_defs toLowerCase_def lower_char_def placeholder_or_default_def
      nullish_or_empty_def)

section \<open>PDF page navigation\<close>

lemma pdf_step_invariant: "page_invariant s \<Longrightarrow> page_invariant (pdf_step p s ev)"
  by (cases ev)
    (auto simp: page_invariant_def onLoadSuccess_def onLoadError_def goToPrevPage_def
      goToNextPage_def next_disabled_def prev_disabled_def)

lemma pdf_foldl_invariant:
  "page_invariant s \<Longrightarrow> page_invariant (foldl (pdf_step p) s evs)"
  by (induction evs arbitrary: s) (simp_all add: pdf_step_invariant)

lemma pdf_handlers_invariant:
  "page_invariant s \<Longrightarrow>
   page_invariant (onLoadSuccess n s) \<and> page_invariant (onLoadError msg s) \<and>
   page_invariant (goToPrevPage s) \<and>
   (next_disabled s = False \<longrightarrow> page_invariant (goToNextPage s))"
  by (auto simp: page_invariant_def onLoadSuccess_def onLoadError_def goToPrevPage_def
      goToNextPage_def next_disabled_def)

text \<open>
  C10: the page number satisfies \<open>pageNumber \<ge> 1\<close>, and \<open>pageNumber \<le> numPages\<close> whenever
  \<open>numPages \<ge> 1\<close>, in the initial state and in every state the component reaches; every
  transition of the component preserves the invariant: \<open>onLoadSuccess\<close>, which resets the
  page to 1, \<open>onLoadError\<close>, \<open>goToPrevPage\<close>, which clamps at 1, and \<open>goToNextPage\<close>, which
  clamps at \<open>numPages\<close> and runs only from the Next button, that is, in states where the
  button is not disabled.
\<close>

theorem page_invariant_reachable:
  "page_invariant pdf_initial \<and>
   page_invariant (pdf_run p evs) \<and>
   (page_invariant s \<longrightarrow> page_invariant (pdf_step p s ev)) \<and>
   (page_invariant s \<longrightarrow>
      page_invariant (onLoadSuccess n s) \<and> page_invariant (onLoadError msg s) \<and>
      page_invariant (goToPrevPage s) \<and>
      (next_disabled s = False \<longrightarrow> page_invariant (goToNextPage s))) \<and>
   pageNumber (onLoadSuccess n s) = 1 \<and>
   1 \<le> pageNumber (goToPrevPage s) \<and>
   pageNumber (goToNextPage s) \<le> numPages s"
proof -
  have init: "page_invariant pdf_initial"
    by (simp add: page_invariant_def pdf_initial_def)
  have run: "page_invariant (pdf_run p evs)"
    unfolding pdf_run_def using init by (rule pdf_foldl_invariant)
  have step: "page_invariant s \<longrightarrow> page_invariant (pdf_step p s ev)"
    by (simp add: pdf_step_invariant)
  have ops: "page_invariant s \<longrightarrow>
      page_invariant (onLoadSuccess n s) \<and> page_invariant (onLoadError msg s) \<and>
      page_invariant (goToPrevPage s) \<and>
      (next_disabled s = False \<longrightarrow> page_invariant (goToNextPage s))"
    using pdf_handlers_invariant [of s n msg] by blast
  have clamp: "pageNumber (onLoadSuccess n s) = 1 \<and> 1 \<le> pageNumber (goToPrevPage s) \<and>
      pageNumber (goToNextPage s) \<le> numPages s"
    by (simp add: onLoadSuccess_def goToPrevPage_def goToNextPage_def)
  from init run step ops clamp show ?thesis by blast
qed

theorem page_invariant_reachable_witness:
  "pageNumber (pdf_run \<lparr> file = Some ''blob:1'', showControls = True \<rparr>
     [ClickNext, LoadSuccess 2, ClickNext, ClickNext, ClickPrev, ClickPrev]) = 1 \<and>
   page_invariant (pdf_run \<lparr> file = Some ''blob:1'', showControls = True \<rparr>
     [ClickNext, LoadSuccess 2, ClickNext, ClickNext, ClickPrev, ClickPrev]) \<and>
   pdf_step \<lparr> file = Some ''blob:1'', showControls = True \<rparr> pdf_initial ClickNext
     = pdf_initial \<and>
   next_disabled (onLoadSuccess 2 pdf_initial) = False \<and>
   page_invariant (goToNextPage (onLoadSuccess 2 pdf_initial))"
  using page_invariant_reachable [of "\<lparr> file = Some ''blob:1'', showControls = True \<rparr>"
      "[ClickNext, LoadSuccess 2, ClickNext, ClickNext, ClickPrev, ClickPrev]"
      "onLoadSuccess 2 pdf_initial" ClickNext 2 "[]"]
  by (simp add: pdf_run_def pdf_initial_def onLoadSuccess_def goToNextPage_def
      goToPrevPage_def controls_rendered_def next_disabled_def prev_disabled_def
      page_invariant_def)

section \<open>The host-communication hook\<close>

lemmas prog_defs =
  return_p_def throw_p_def modify_p_def bind_p_def then_p_def try_catch_def try_finally_def

lemmas hook_defs =
  hook_step_def initEffect_def updateField_def updateFormData_def completeTask_def
  resetForm_def invoke_def


lemma handle_formData:
  "formData (handleActionCenterMessage d s) =
     (case data_data d of None \<Rightarrow> formData s | Some fd \<Rightarrow> fd)"
  by (simp add: handleActionCenterMessage_def Let_def split: option.splits)

lemma handle_initialDataRef:
  "initialDataRef (handleActionCenterMessage d s) =
     (case data_data d of None \<Rightarrow> initialDataRef s | Some fd \<Rightarrow> fd)"
  by (simp add: handleActionCenterMessage_def Let_def split: option.splits)

lemma handle_flag: "hasActionCenterData (handleActionCenterMessage d s)"
  by (simp add: handleActionCenterMessage_def Let_def split: option.splits)

lemma handle_isInitializedRef:
  "isInitializedRef (handleActionCenterMessage d s) = isInitializedRef s"
  by (simp add: handleActionCenterMessage_def Let_def split: option.splits)

lemma handle_registrations:
  "registrations (handleActionCenterMessage d s) = registrations s"
  "ready_signals (handleActionCenterMessage d s) = ready_signals s"
  by (simp_all add: handleActionCenterMessage_def registrations_def ready_signals_def Let_def
      split: option.splits)

lemma step_initialDataRef:
  "initialDataRef (hook_step s ev) =
     (case ev of
        HostMessage d \<Rightarrow> (case data_data d of None \<Rightarrow> initialDataRef s | Some fd \<Rightarrow> fd)
      | _ \<Rightarrow> initialDataRef s)"
  by (cases ev)
    (auto simp: hook_defs prog_defs handle_initialDataRef Let_def split: option.splits)

lemma run_initialDataRef:
  "initialDataRef (foldl hook_step s evs) = last_host_data (initialDataRef s) evs"
proof (induction evs arbitrary: s)
  case Nil
  show ?case by simp
next
  case (Cons ev evs)
  show ?case
    by (cases ev) (simp_all add: Cons.IH step_initialDataRef)
qed

lemma step_flag:
  "hasActionCenterData (hook_step s ev) = (hasActionCenterData s \<or> is_host_message ev)"
  by (cases ev) (auto simp: hook_defs prog_defs handle_flag Let_def split: option.splits)

lemma run_flag:
  "hasActionCenterData (foldl hook_step s evs) =
     (hasActionCenterData s \<or> list_ex is_host_message evs)"
  by (induction evs arbitrary: s) (auto simp: step_flag)









text \<open>
  C6: \<open>updateField(f, v)\<close> sets the key \<open>f\<close> of the form data to \<open>v\<close> and changes nothing else:
  every other key keeps its value, and \<open>taskData\<close>, the theme, the language and
  \<open>hasActionCenterData\<close> (and the two refs) are unchanged; it does not throw.
\<close>

theorem updateField_frame:
  "(k \<noteq> f \<longrightarrow>
      formData (snd (updateField f v outcome s)) k = formData s k) \<and>
   formData (snd (updateField f v outcome s)) f = Some v \<and>
   taskData (snd (updateField f v outcome s)) = taskData s \<and>
   theme (snd (updateField f v outcome s)) = theme s \<and>
   language (snd (updateField f v outcome s)) = language s \<and>
   hasActionCenterData (snd (updateField f v outcome s)) = hasActionCenterData s \<and>
   initialDataRef (snd (updateField f v outcome s)) = initialDataRef s \<and>
   isInitializedRef (snd (updateField f v outcome s)) = isInitializedRef s \<and>
   fst (updateField f v outcome s) = Inr ()"
  by (cases outcome) (simp_all add: updateField_def invoke_def prog_defs Let_def)

theorem updateField_frame_witness:
  "''remarks'' \<noteq> ''path1'' \<and>
   formData (snd (updateField ''remarks'' (JStr ''fine'') None
     (useActionContext_init (Some [''path1'' \<mapsto> JStr ''/a.pdf''])))) ''path1''
     = Some (JStr ''/a.pdf'') \<and>
   formData (snd (updateField ''remarks'' (JStr ''fine'') None
     (useActionContext_init (Some [''path1'' \<mapsto> JStr ''/a.pdf''])))) ''remarks''
     = Some (JStr ''fine'')"
  using updateField_frame [of "''path1''" "''remarks''" "JStr ''fine''" None
      "useActionContext_init (Some [''path1'' \<mapsto> JStr ''/a.pdf''])"]
  by (simp add: useActionContext_init_def initialData_of_def)

text \<open>
  C8: after any sequence of events of the hook (field updates, bulk updates, host
  messages, earlier resets), \<open>resetForm\<close> sets \<open>formData\<close> to the data of the last host
  message that carried data, or to the caller's \<open>initialData\<close> when no host message carried
  data.
\<close>

theorem resetForm_restores_baseline:
  "formData (hook_step (hook_run (useActionContext_init opt) evs) (ResetForm outcome))
     = last_host_data (initialData_of opt) evs"
proof -
  have "formData (hook_step t (ResetForm outcome)) = initialDataRef t" for t
    by (cases outcome) (simp_all add: hook_defs prog_defs)
  then show ?thesis
    by (simp add: hook_run_def run_initialDataRef useActionContext_init_def)
qed

lemma step_counts_other:
  "(\<And>r1 r2. ev \<noteq> MountEffect r1 r2) \<Longrightarrow>
   registrations (hook_step s ev) = registrations s \<and>
   ready_signals (hook_step s ev) = ready_signals s \<and>
   isInitializedRef (hook_step s ev) = isInitializedRef s"
proof (cases ev)
  case (HostMessage d)
  then show ?thesis
    by (simp add: hook_step_def modify_p_def handle_registrations handle_isInitializedRef)
qed (auto simp: hook_defs prog_defs registrations_def ready_signals_def Let_def
    split: option.splits)

lemma mount_again_noop: "isInitializedRef s \<Longrightarrow> hook_step s (MountEffect r1 r2) = s"
  by (simp add: hook_defs)

lemma mount_first:
  "isInitializedRef s = False \<Longrightarrow>
   isInitializedRef (hook_step s (MountEffect r1 r2)) \<and>
   registrations (hook_step s (MountEffect r1 r2)) = registrations s + 1 \<and>
   ready_signals (hook_step s (MountEffect r1 r2)) =
     (if r1 = None then ready_signals s + 1 else ready_signals s)"
  by (cases r1; cases r2)
    (simp_all add: hook_defs prog_defs registrations_def ready_signals_def)

lemma step_once_guard: "once_guard s \<Longrightarrow> once_guard (hook_step s ev)"
proof (cases "\<exists>r1 r2. ev = MountEffect r1 r2")
  case True
  then obtain r1 r2 where ev: "ev = MountEffect r1 r2" by blast
  assume g: "once_guard s"
  show ?thesis
  proof (cases "isInitializedRef s")
    case True
    with g ev show ?thesis by (simp add: mount_again_noop)
  next
    case False
    with g mount_first [of s r1 r2] ev show ?thesis
      by (simp add: once_guard_def)
  qed
next
  case False
  assume g: "once_guard s"
  from False have "\<And>r1 r2. ev \<noteq> MountEffect r1 r2" by blast
  from step_counts_other [OF this, of s] g show ?thesis
    by (auto simp: once_guard_def split: if_splits)
qed

lemma run_once_guard: "once_guard s \<Longrightarrow> once_guard (foldl hook_step s evs)"
  by (induction evs arbitrary: s) (simp_all add: step_once_guard)

lemma step_sent_once: "sent_once s \<Longrightarrow> sent_once (hook_step s ev)"
proof (cases "\<exists>r1 r2. ev = MountEffect r1 r2")
  case True
  assume "sent_once s"
  with True show ?thesis by (auto simp: sent_once_def mount_again_noop)
next
  case False
  assume g: "sent_once s"
  from False have "\<And>r1 r2. ev \<noteq> MountEffect r1 r2" by blast
  from step_counts_other [OF this, of s] g show ?thesis
    by (simp add: sent_once_def)
qed

lemma run_sent_once: "sent_once s \<Longrightarrow> sent_once (foldl hook_step s evs)"
  by (induction evs arbitrary: s) (simp_all add: step_sent_once)

text \<open>
  The claim C2 as stated fails in two places. The hook handles every host message, so
  host data is not received exactly once: a second message that carries data replaces the
  form data again. And when the registration call throws, the \<open>catch\<close> swallows the error
  and the ready signal is never sent, the ref being set already.
\<close>

theorem host_data_twice_counterexample:
  "formData (hook_run (useActionContext_init None)
     [MountEffect None None, HostMessage (data_message [''remarks'' \<mapsto> JStr ''first''])])
     = [''remarks'' \<mapsto> JStr ''first''] \<and>
   formData (hook_run (useActionContext_init None)
     [MountEffect None None, HostMessage (data_message [''remarks'' \<mapsto> JStr ''first'']),
      HostMessage (data_message [''remarks'' \<mapsto> JStr ''second''])])
     = [''remarks'' \<mapsto> JStr ''second''] \<and>
   ready_signals (hook_run (useActionContext_init None)
     [MountEffect (Some (ErrorObj ''no host'')) None, MountEffect None None]) = 0"
  by (simp add: hook_run_def hook_defs prog_defs useActionContext_init_def initialData_of_def
      handleActionCenterMessage_def data_message_def ready_signals_def Let_def)

text \<open>
  C2 (amended): in every run of a hook instance the callback is registered at most once
  and the ready signal is sent at most once; an entry of the mount effect body after the
  first one changes nothing; when the registration call of the first entry does not
  throw, both happen exactly once. Every host message sets \<open>hasActionCenterData\<close>, and
  every host message that carries data replaces \<open>formData\<close> by that data.
\<close>

theorem init_effect_once:
  "registrations (hook_run (useActionContext_init opt) evs) \<le> 1 \<and>
   ready_signals (hook_run (useActionContext_init opt) evs) \<le> 1 \<and>
   (isInitializedRef s \<longrightarrow> hook_step s (MountEffect r1 r2) = s) \<and>
   registrations (hook_run (useActionContext_init opt) (MountEffect None r2 # evs)) = 1 \<and>
   ready_signals (hook_run (useActionContext_init opt) (MountEffect None r2 # evs)) = 1 \<and>
   hasActionCenterData (hook_step s (HostMessage d)) \<and>
   formData (hook_step s (HostMessage d)) =
     (case data_data d of None \<Rightarrow> formData s | Some fd \<Rightarrow> fd)"
proof -
  let ?s0 = "useActionContext_init opt"
  have g0: "once_guard ?s0"
    by (simp add: once_guard_def useActionContext_init_def registrations_def ready_signals_def)
  have "once_guard (hook_run ?s0 evs)"
    unfolding hook_run_def using g0 by (rule run_once_guard)
  then have a: "registrations (hook_run ?s0 evs) \<le> 1 \<and> ready_signals (hook_run ?s0 evs) \<le> 1"
    by (auto simp: once_guard_def split: if_splits)
  have b: "isInitializedRef s \<longrightarrow> hook_step s (MountEffect r1 r2) = s"
    by (simp add: mount_again_noop)
  have "isInitializedRef ?s0 = False" "registrations ?s0 = 0" "ready_signals ?s0 = 0"
    by (simp_all add: useActionContext_init_def registrations_def ready_signals_def)
  with mount_first [of ?s0 None r2] have "sent_once (hook_step ?s0 (MountEffect None r2))"
    by (simp add: sent_once_def)
  then have "sent_once (foldl hook_step (hook_step ?s0 (MountEffect None r2)) evs)"
    by (rule run_sent_once)
  then have c: "registrations (hook_run ?s0 (MountEffect None r2 # evs)) = 1 \<and>
      ready_signals (hook_run ?s0 (MountEffect None r2 # evs)) = 1"
    by (simp add: hook_run_def sent_once_def)
  have d: "hasActionCenterData (hook_step s (HostMessage d)) \<and>
      formData (hook_step s (HostMessage d)) =
        (case data_data d of None \<Rightarrow> formData s | Some fd \<Rightarrow> fd)"
    by (simp add: hook_step_def modify_p_def handle_flag handle_formData)
  from a b c d show ?thesis by blast
qed

theorem init_effect_once_witness:
  "isInitializedRef (hook_step (useActionContext_init None) (MountEffect None None)) \<and>
   sdk_calls (hook_run (useActionContext_init None)
     [MountEffect None None, MountEffect None None, MountEffect None None])
     = [GetTaskDetailsFromActionCenter, InitializeInActionCenter] \<and>
   hook_step (hook_step (useActionContext_init None) (MountEffect None None))
       (MountEffect None None)
     = hook_step (useActionContext_init None) (MountEffect None None)"
  using init_effect_once [of None "[MountEffect None None, MountEffect None None]"
      "hook_step (useActionContext_init None) (MountEffect None None)" None None]
  by (simp add: hook_run_def hook_defs prog_defs useActionContext_init_def)

theorem resetForm_restores_baseline_witness:
  "formData (hook_step (hook_run (useActionContext_init (Some [''remarks'' \<mapsto> JStr ''draft'']))
     [HostMessage (data_message [''remarks'' \<mapsto> JStr ''host'']),
      UpdateField ''remarks'' (JStr ''edited'') None,
      UpdateFormData [''extra'' \<mapsto> JNum 1] None]) (ResetForm None))
   = [''remarks'' \<mapsto> JStr ''host'']"
  using resetForm_restores_baseline [of "Some [''remarks'' \<mapsto> JStr ''draft'']"
     "[HostMessage (data_message [''remarks'' \<mapsto> JStr ''host'']),
      UpdateField ''remarks'' (JStr ''edited'') None,
      UpdateFormData [''extra'' \<mapsto> JNum 1] None]" None]
  by (simp add: initialData_of_def data_message_def)

section \<open>Bucket file fetches\<close>











section \<open>The action page\<close>

lemma set_doc_fields [simp]:
  "hook (set_doc sl d s) = hook s"
  "page_calls (set_doc sl d s) = page_calls s"
  "cleanup_urls (set_doc sl d s) = cleanup_urls s"
  "mounted (set_doc sl d s) = mounted s"
  "fetch_deps (set_doc sl d s) = fetch_deps s"
  "entity_deps (set_doc sl d s) = entity_deps s"
  "pending (set_doc sl d s) = pending s"
  "urls_created (set_doc sl d s) = urls_created s"
  by (cases sl; simp)+

lemma url_deps_set_doc_same:
  "doc_url d = doc_url (get_doc sl s) \<Longrightarrow> url_deps (set_doc sl d s) = url_deps s"
  by (cases sl) (simp_all add: url_deps_def)

lemma url_deps_set_doc_ok:
  "list_all url_ok (url_deps s) \<Longrightarrow> url_ok (doc_url d) \<Longrightarrow>
   list_all url_ok (url_deps (set_doc sl d s))"
  by (cases sl) (simp_all add: url_deps_def)

lemma get_doc_fields [simp]:
  "get_doc sl (s\<lparr> page_calls := c \<rparr>) = get_doc sl s"
  "get_doc sl (s\<lparr> pending := q \<rparr>) = get_doc sl s"
  "get_doc sl (s\<lparr> urls_created := n \<rparr>) = get_doc sl s"
  "get_doc sl (s\<lparr> fetch_deps := f \<rparr>) = get_doc sl s"
  "get_doc sl (s\<lparr> entity_deps := e \<rparr>) = get_doc sl s"
  "get_doc sl (s\<lparr> hook := h \<rparr>) = get_doc sl s"
  by (cases sl; simp)+

lemma url_deps_fields [simp]:
  "url_deps (s\<lparr> page_calls := c \<rparr>) = url_deps s"
  "url_deps (s\<lparr> pending := q \<rparr>) = url_deps s"
  "url_deps (s\<lparr> urls_created := n \<rparr>) = url_deps s"
  "url_deps (s\<lparr> fetch_deps := f \<rparr>) = url_deps s"
  "url_deps (s\<lparr> entity_deps := e \<rparr>) = url_deps s"
  "url_deps (s\<lparr> hook := h \<rparr>) = url_deps s"
  "url_deps (s\<lparr> mounted := m \<rparr>) = url_deps s"
  "url_deps (s\<lparr> cleanup_urls := u \<rparr>) = url_deps s"
  by (simp_all add: url_deps_def)

lemma form_value_fields [simp]:
  "form_value (s\<lparr> page_calls := c \<rparr>) k = form_value s k"
  "form_value (s\<lparr> pending := q \<rparr>) k = form_value s k"
  "form_value (s\<lparr> fetch_deps := f \<rparr>) k = form_value s k"
  "form_value (s\<lparr> entity_deps := e \<rparr>) k = form_value s k"
  "form_value (set_doc sl d s) k = form_value s k"
  by (simp_all add: form_value_def)

text \<open>Starting a fetch.\<close>

lemma start_fields [simp]:
  "hook (fetchDocument_start sl p s) = hook s"
  "cleanup_urls (fetchDocument_start sl p s) = cleanup_urls s"
  "mounted (fetchDocument_start sl p s) = mounted s"
  "entity_deps (fetchDocument_start sl p s) = entity_deps s"
  "url_deps (fetchDocument_start sl p s) = url_deps s"
  by (simp_all add: fetchDocument_start_def Let_def url_deps_set_doc_same)

lemma form_value_start [simp]: "form_value (fetchDocument_start sl p s) k = form_value s k"
  by (simp add: form_value_def)

text \<open>The document effect and the entity effect.\<close>

lemma document_effect_fields [simp]:
  "hook (document_effect s) = hook s"
  "cleanup_urls (document_effect s) = cleanup_urls s"
  "mounted (document_effect s) = mounted s"
  "entity_deps (document_effect s) = entity_deps s"
  "url_deps (document_effect s) = url_deps s"
  by (simp_all add: document_effect_def Let_def)

lemma document_effect_gate:
  "hasActionCenterData (hook s) = False \<Longrightarrow> document_effect s = s"
  by (simp add: document_effect_def)

lemma entity_effect_fields [simp]:
  "hook (entity_effect s) = hook s"
  "cleanup_urls (entity_effect s) = cleanup_urls s"
  "mounted (entity_effect s) = mounted s"
  "url_deps (entity_effect s) = url_deps s"
  by (simp_all add: entity_effect_def)

lemma entity_effect_gate:
  "hasActionCenterData (hook s) = False \<Longrightarrow> entity_effect s = s"
  by (simp add: entity_effect_def)

lemma service_revocations [simp]: "filter is_service_call (revocations us) = []"
  by (induction us rule: revocations.induct) simp_all

lemma run_cleanup_fields [simp]:
  "hook (run_cleanup s) = hook s"
  "mounted (run_cleanup s) = mounted s"
  "url_deps (run_cleanup s) = url_deps s"
  "cleanup_urls (run_cleanup s) = cleanup_urls s"
  "filter is_service_call (page_calls (run_cleanup s)) = filter is_service_call (page_calls s)"
  by (simp_all add: run_cleanup_def split: option.splits)

text \<open>Running the effects after a render.\<close>

lemma run_effects_fields [simp]:
  "hook (run_effects s) = hook s"
  "mounted (run_effects s) = mounted s"
  "url_deps (run_effects s) = url_deps s"
  "cleanup_urls (run_effects s) = Some (url_deps s)"
  by (simp_all add: run_effects_def Let_def)

lemma run_effects_gate:
  "hasActionCenterData (hook s) = False \<Longrightarrow>
   filter is_service_call (page_calls (run_effects s)) = filter is_service_call (page_calls s)"
  by (simp add: run_effects_def Let_def document_effect_gate entity_effect_gate)

text \<open>Settling a fetch.\<close>

lemma blob_url_nonempty: "blob_url n \<noteq> []"
  by (simp add: blob_url_def)

lemma settle_fields [simp]:
  "hook (fetchDocument_settle sl p r s) = hook s"
  "mounted (fetchDocument_settle sl p r s) = mounted s"
  "filter is_service_call (page_calls (fetchDocument_settle sl p r s)) =
     filter is_service_call (page_calls s)"
  by (simp_all add: fetchDocument_settle_def Let_def split: sum.splits option.splits)

lemma settle_urls_ok:
  "list_all url_ok (url_deps s) \<Longrightarrow> list_all url_ok (url_deps (fetchDocument_settle sl p r s))"
proof -
  assume ok: "list_all url_ok (url_deps s)"
  have same: "url_ok (doc_url (get_doc sl t))" if "list_all url_ok (url_deps t)" for t
    using that by (cases sl) (simp_all add: url_deps_def)
  show ?thesis
    using ok same [of s]
    by (auto simp: fetchDocument_settle_def Let_def blob_url_nonempty
        intro!: url_deps_set_doc_ok split: sum.splits option.splits)
qed

lemma settle_unmounted_fields [simp]:
  "hook (settle_unmounted r s) = hook s"
  "mounted (settle_unmounted r s) = mounted s"
  "url_deps (settle_unmounted r s) = url_deps s"
  "cleanup_urls (settle_unmounted r s) = cleanup_urls s"
  "filter is_service_call (page_calls (settle_unmounted r s)) =
     filter is_service_call (page_calls s)"
  by (simp_all add: settle_unmounted_def split: sum.splits option.splits)

text \<open>The two invariants.\<close>

lemma step_gated: "gated s \<Longrightarrow> gated (page_step s ev)"
proof (cases ev)
  case (Hook e)
  assume g: "gated s"
  show ?thesis
  proof (cases "hasActionCenterData (hook_step (hook s) e)")
    case True
    with Hook g show ?thesis by (simp add: gated_def)
  next
    case False
    then have "hasActionCenterData (hook s) = False"
      by (simp add: step_flag)
    with g have "filter is_service_call (page_calls s) = []"
      by (simp add: gated_def)
    with False Hook g show ?thesis
      by (simp add: gated_def run_effects_gate)
  qed
next
  case (FetchSettled sl p r)
  assume g: "gated s"
  show ?thesis
  proof (cases "hasActionCenterData (hook s)")
    case True
    with FetchSettled show ?thesis by (simp add: gated_def)
  next
    case False
    with g have "filter is_service_call (page_calls s) = []"
      by (simp add: gated_def)
    with False FetchSettled show ?thesis
      by (simp add: gated_def run_effects_gate)
  qed
next
  case Unmount
  assume "gated s"
  with Unmount show ?thesis by (simp add: gated_def)
qed

lemma run_gated: "gated s \<Longrightarrow> gated (foldl page_step s evs)"
  by (induction evs arbitrary: s) (simp_all add: step_gated)

lemma mount_gated: "gated (page_mount reg ready)"
proof -
  have "hasActionCenterData (hook_step (useActionContext_init (Some INITIAL_DATA))
      (MountEffect reg ready)) = False"
    by (simp add: step_flag useActionContext_init_def)
  then show ?thesis
    by (simp add: gated_def page_mount_def run_effects_gate)
qed

lemma step_host_flag:
  "hasActionCenterData (hook (page_step s ev)) \<Longrightarrow>
   hasActionCenterData (hook s) \<or> is_host_event ev"
  by (cases ev) (auto simp: step_flag split: if_splits)

lemma run_host_flag:
  "hasActionCenterData (hook (foldl page_step s evs)) \<Longrightarrow>
   hasActionCenterData (hook s) \<or> list_ex is_host_event evs"
proof (induction evs arbitrary: s)
  case Nil
  then show ?case by simp
next
  case (Cons ev evs)
  from Cons.IH [of "page_step s ev"] Cons.prems
  have "hasActionCenterData (hook (page_step s ev)) \<or> list_ex is_host_event evs"
    by simp
  with step_host_flag [of s ev] show ?case by auto
qed

text \<open>
  C1: in every run of the page, the readiness flag is true only after a host message has
  been received, and as long as it is false neither \<open>fetchFileContent\<close> nor \<open>fetchByName\<close>
  has been invoked; with the flag false the bodies of both fetch effects do nothing.
\<close>

theorem no_service_call_before_ready:
  "(hasActionCenterData (hook (page_run (page_mount reg ready) evs)) \<longrightarrow>
      list_ex is_host_event evs) \<and>
   (hasActionCenterData (hook (page_run (page_mount reg ready) evs)) = False \<longrightarrow>
      filter is_service_call (page_calls (page_run (page_mount reg ready) evs)) = []) \<and>
   (hasActionCenterData (hook s) = False \<longrightarrow> document_effect s = s \<and> entity_effect s = s)"
proof -
  have m: "hasActionCenterData (hook (page_mount reg ready)) = False"
    by (simp add: page_mount_def step_flag useActionContext_init_def)
  have a: "hasActionCenterData (hook (page_run (page_mount reg ready) evs)) \<longrightarrow>
      list_ex is_host_event evs"
    using run_host_flag [of "page_mount reg ready" evs] m by (simp add: page_run_def)
  have "gated (page_run (page_mount reg ready) evs)"
    unfolding page_run_def using mount_gated by (rule run_gated)
  then have b: "hasActionCenterData (hook (page_run (page_mount reg ready) evs)) = False \<longrightarrow>
      filter is_service_call (page_calls (page_run (page_mount reg ready) evs)) = []"
    by (auto simp: gated_def)
  have c: "hasActionCenterData (hook s) = False \<longrightarrow> document_effect s = s \<and> entity_effect s = s"
    by (simp add: document_effect_gate entity_effect_gate)
  from a b c show ?thesis by blast
qed

theorem no_service_call_before_ready_witness:
  "list_ex is_host_event
     [Hook (UpdateField ''remarks'' (JStr ''looks fine'') None), Hook (ResetForm None)] = False \<and>
   hasActionCenterData (hook (page_run (page_mount None None)
     [Hook (UpdateField ''remarks'' (JStr ''looks fine'') None), Hook (ResetForm None)])) = False \<and>
   filter is_service_call (page_calls (page_run (page_mount None None)
     [Hook (UpdateField ''remarks'' (JStr ''looks fine'') None), Hook (ResetForm None)])) = []"
  using no_service_call_before_ready [of None None
      "[Hook (UpdateField ''remarks'' (JStr ''looks fine'') None), Hook (ResetForm None)]"]
  by simp

text \<open>With the flag set, the effect bodies do invoke the services.\<close>

lemma entity_effect_ready:
  "hasActionCenterData (hook s) \<Longrightarrow> truthy (form_value s ''entityName'') \<Longrightarrow>
   page_calls (entity_effect s) =
     page_calls s @ [FetchByName (form_value s ''entityName'') 50 1]"
  by (simp add: entity_effect_def)

lemma document_effect_ready:
  "hasActionCenterData (hook s) \<Longrightarrow> truthy (form_value s ''bucketId'') \<Longrightarrow>
   truthy (form_value s ''folderId'') \<Longrightarrow> truthy (form_value s ''path1'') \<Longrightarrow>
   truthy (form_value s ''path2'') = False \<Longrightarrow> truthy (form_value s ''path3'') = False \<Longrightarrow>
   page_calls (document_effect s) =
     page_calls s @
       [FetchFileContent \<lparr> bucketId = form_value s ''bucketId'',
          folderId = form_value s ''folderId'', path = form_value s ''path1'',
          expiryInMinutes = Some 60 \<rparr>]"
  by (simp add: document_effect_def fetchDocument_start_def Let_def)

section \<open>Object URL cleanup\<close>

lemma revocations_ok:
  "list_all url_ok us \<Longrightarrow>
   revocations us = map RevokeObjectURL (concat (map (\<lambda>u. case u of None \<Rightarrow> [] | Some x \<Rightarrow> [x]) us))"
  by (induction us rule: revocations.induct) simp_all

lemma current_urls_deps:
  "current_urls s = concat (map (\<lambda>u. case u of None \<Rightarrow> [] | Some x \<Rightarrow> [x]) (url_deps s))"
  by (simp add: current_urls_def url_deps_def)

lemma step_cleanup_current: "cleanup_current s \<Longrightarrow> cleanup_current (page_step s ev)"
proof (cases ev)
  case (Hook e)
  assume "cleanup_current s"
  with Hook show ?thesis by (simp add: cleanup_current_def)
next
  case (FetchSettled sl p r)
  assume c: "cleanup_current s"
  then have "list_all url_ok (url_deps (s\<lparr> pending := remove1 (sl, p) (pending s) \<rparr>))"
    by (simp add: cleanup_current_def)
  then have "list_all url_ok
      (url_deps (fetchDocument_settle sl p r (s\<lparr> pending := remove1 (sl, p) (pending s) \<rparr>)))"
    by (rule settle_urls_ok)
  with c FetchSettled show ?thesis by (simp add: cleanup_current_def)
next
  case Unmount
  assume "cleanup_current s"
  with Unmount show ?thesis by (simp add: cleanup_current_def)
qed

lemma run_cleanup_current: "cleanup_current s \<Longrightarrow> cleanup_current (foldl page_step s evs)"
  by (induction evs arbitrary: s) (simp_all add: step_cleanup_current)

lemma mount_cleanup_current: "cleanup_current (page_mount reg ready)"
  by (simp add: cleanup_current_def page_mount_def) (simp add: url_deps_def doc_initial_def)

lemma unmount_step:
  "mounted s \<Longrightarrow> cleanup_current s \<Longrightarrow>
   page_step s Unmount =
     s\<lparr> mounted := False, page_calls := page_calls s @ map RevokeObjectURL (current_urls s) \<rparr>"
  by (simp add: cleanup_current_def run_cleanup_def revocations_ok current_urls_deps)

text \<open>
  C7: when the page is unmounted, in any state it can have reached, the cleanup calls
  \<open>URL.revokeObjectURL\<close> on the \<open>url\<close> of each of the three document cells whose \<open>url\<close> is not
  null, in the order of the cells, and does nothing else.
\<close>

theorem unmount_revokes_current_urls:
  assumes "mounted (page_run (page_mount reg ready) evs)"
  shows "page_step (page_run (page_mount reg ready) evs) Unmount =
           (page_run (page_mount reg ready) evs)
             \<lparr> mounted := False,
               page_calls := page_calls (page_run (page_mount reg ready) evs) @
                 map RevokeObjectURL (current_urls (page_run (page_mount reg ready) evs)) \<rparr> \<and>
         unmount_calls (page_run (page_mount reg ready) evs) =
           map RevokeObjectURL (current_urls (page_run (page_mount reg ready) evs))"
proof -
  have "cleanup_current (page_run (page_mount reg ready) evs)"
    unfolding page_run_def using mount_cleanup_current by (rule run_cleanup_current)
  with assms have "page_step (page_run (page_mount reg ready) evs) Unmount =
           (page_run (page_mount reg ready) evs)
             \<lparr> mounted := False,
               page_calls := page_calls (page_run (page_mount reg ready) evs) @
                 map RevokeObjectURL (current_urls (page_run (page_mount reg ready) evs)) \<rparr>"
    by (rule unmount_step)
  then show ?thesis by (simp add: unmount_calls_def)
qed

lemma step_mounted: "mounted (page_step s ev) = (mounted s \<and> ev \<noteq> Unmount)"
  by (cases ev) simp_all

lemma run_mounted: "mounted (foldl page_step s evs) = (mounted s \<and> Unmount \<notin> set evs)"
  by (induction evs arbitrary: s) (auto simp: step_mounted)

theorem unmount_revokes_current_urls_witness:
  "mounted (page_run (page_mount None None) sample_run) \<and>
   unmount_calls (page_run (page_mount None None) sample_run) = [RevokeObjectURL ''blob:0'']"
proof -
  have m: "mounted (page_run (page_mount None None) sample_run)"
    by (simp add: page_run_def run_mounted sample_run_def page_mount_def)
  have c: "current_urls (page_run (page_mount None None) sample_run) = [''blob:0'']"
    by code_simp
  from m c unmount_revokes_current_urls [OF m] show ?thesis by simp
qed

text \<open>In the same run the host message makes the page invoke both services.\<close>

lemma ready_page_fetches:
  "filter is_service_call (page_calls (page_run (page_mount None None) sample_run)) =
     [FetchFileContent \<lparr> bucketId = JNum 7, folderId = JNum 8, path = JStr ''/a.pdf'',
                         expiryInMinutes = Some 60 \<rparr>,
      FetchByName (JStr ''Invoice'') 50 1]"
  by code_simp


end
